theory Spec2Isabelle
  imports Main
begin

section \<open>JavaScript string helpers used by the bot\<close>

text \<open>
  Strings are lists of 8-bit characters. The source works on UTF-16 strings; every
  text the handlers compare, trim or split on is ASCII (commands, digits, blanks and
  line feeds), and the model reads one \<^typ>\<open>char\<close> as one code unit.
\<close>

text \<open>
  \<^verbatim>\<open>String.prototype.trim\<close> strips white space and line terminators at both ends.
  Among the 8-bit code units these are TAB, LF, VT, FF, CR, SPACE and the no-break space
  (0xA0).
\<close>

definition is_white_space :: "char \<Rightarrow> bool" where
  "is_white_space c =
     (c = CHR 0x09 \<or> c = CHR 0x0A \<or> c = CHR 0x0B \<or> c = CHR 0x0C \<or> c = CHR 0x0D \<or>
      c = CHR 0x20 \<or> c = CHR 0xA0)"

definition trim :: "string \<Rightarrow> string" where
  "trim s = rev (dropWhile is_white_space (rev (dropWhile is_white_space s)))"

text \<open>\<^verbatim>\<open>s.split(c)\<close> for a one-character separator: never empty, \<^verbatim>\<open>''.split(c)\<close> is \<^verbatim>\<open>['']\<close>.\<close>

fun split_on :: "char \<Rightarrow> string \<Rightarrow> string list" where
  "split_on c [] = [[]]"
| "split_on c (x # xs) =
     (if x = c then [] # split_on c xs
      else (case split_on c xs of
              [] \<Rightarrow> [[x]]
            | w # ws \<Rightarrow> (x # w) # ws))"

text \<open>\<^verbatim>\<open>xs.join(sep)\<close>.\<close>

fun join :: "string \<Rightarrow> string list \<Rightarrow> string" where
  "join sep [] = []"
| "join sep [x] = x"
| "join sep (x # y # ys) = x @ sep @ join sep (y # ys)"

text \<open>\<^verbatim>\<open>s.startsWith(p)\<close>.\<close>

definition startsWith :: "string \<Rightarrow> string \<Rightarrow> bool" where
  "startsWith s p = (take (length p) s = p)"

text \<open>
  Template-literal rendering of an integer-valued number, \<^verbatim>\<open>`${n}`\<close>: decimal digits,
  a leading minus sign for negatives. This is the text of every integer of magnitude up
  to $2^{53}$ (beyond, the source prints the shortest digits that identify the double, or
  an exponent: \<open>show_double\<close> below); the counts and message identifiers that the
  handlers render this way are far below.
\<close>

definition digit_char :: "nat \<Rightarrow> char" where
  "digit_char d = ''0123456789'' ! d"

function show_nat :: "nat \<Rightarrow> string" where
  "show_nat n = (if n < 10 then [digit_char n] else show_nat (n div 10) @ [digit_char (n mod 10)])"
  by pat_completeness auto
termination
  by (relation "measure id") auto

definition show_int :: "int \<Rightarrow> string" where
  "show_int i = (if i < 0 then CHR ''-'' # show_nat (nat (- i)) else show_nat (nat i))"

text \<open>
  A number of the source is a double. The numbers the handlers compute with are
  integer-valued: an integer is kept exactly up to $2^{53}$ in magnitude, and beyond is
  rounded to 53 significant bits, to the nearest and on a tie to the even one.
  \<open>excess_bits a\<close> counts the low bits of \<open>a\<close> that do not fit. (No magnitude in reach
  comes near the overflow threshold $2^{1024}$: a callback token has at most 64 bytes.)
\<close>

function excess_bits :: "nat \<Rightarrow> nat" where
  "excess_bits a = (if a < 2 ^ 53 then 0 else Suc (excess_bits (a div 2)))"
  by pat_completeness auto
termination
  by (relation "measure id") auto

declare excess_bits.simps [simp del]

definition round_double :: "int \<Rightarrow> int" where
  "round_double i =
     (let a = nat \<bar>i\<bar>;
          e = excess_bits a;
          q = a div 2 ^ e;
          r = a mod 2 ^ e;
          m = (if 2 ^ e < 2 * r \<or> (2 * r = 2 ^ e \<and> odd q) then Suc q else q) * 2 ^ e
      in if i < 0 then - int m else int m)"

text \<open>
  \<^verbatim>\<open>parseInt(s)\<close> with no radix: leading white space is skipped, then an optional sign,
  then the longest run of digits (hexadecimal after a \<^verbatim>\<open>0x\<close> prefix, decimal otherwise)
  is read, and the value is rounded to a double. \<open>None\<close> stands for \<^verbatim>\<open>NaN\<close>.
\<close>

definition digit_val :: "nat \<Rightarrow> char \<Rightarrow> nat option" where
  "digit_val radix c =
     (let k = of_char c :: nat;
          v = (if 48 \<le> k \<and> k \<le> 57 then k - 48
               else if 97 \<le> k \<and> k \<le> 122 then k - 87
               else if 65 \<le> k \<and> k \<le> 90 then k - 55
               else radix)
      in if v < radix then Some v else None)"

fun parse_digits :: "nat \<Rightarrow> nat option \<Rightarrow> string \<Rightarrow> nat option" where
  "parse_digits radix acc [] = acc"
| "parse_digits radix acc (c # cs) =
     (case digit_val radix c of
        None \<Rightarrow> acc
      | Some v \<Rightarrow> parse_digits radix (Some ((case acc of None \<Rightarrow> 0 | Some a \<Rightarrow> a) * radix + v)) cs)"

definition parse_unsigned :: "string \<Rightarrow> nat option" where
  "parse_unsigned s =
     (if take 2 s = ''0x'' \<or> take 2 s = ''0X'' then parse_digits 16 None (drop 2 s)
      else parse_digits 10 None s)"

definition parseInt :: "string \<Rightarrow> int option" where
  "parseInt s =
     (case dropWhile is_white_space s of
        [] \<Rightarrow> None
      | c # cs \<Rightarrow>
          (if c = CHR ''-'' then map_option (\<lambda>n. round_double (- int n)) (parse_unsigned cs)
           else if c = CHR ''+'' then map_option (\<lambda>n. round_double (int n)) (parse_unsigned cs)
           else map_option (\<lambda>n. round_double (int n)) (parse_unsigned (c # cs))))"

text \<open>
  The transport matches a message text against \<^verbatim>\<open>/\/cmd (.+)/\<close> (unanchored) and hands
  the handler the capture \<^verbatim>\<open>match[1]\<close>: at the leftmost place where the literal (with
  its trailing blank) is followed by at least one character that is not a line
  terminator, the run of such characters up to the end of the line.
\<close>

definition is_line_terminator :: "char \<Rightarrow> bool" where
  "is_line_terminator c = (c = CHR 0x0A \<or> c = CHR 0x0D)"

fun regex_capture :: "string \<Rightarrow> string \<Rightarrow> string option" where
  "regex_capture lit [] = None"
| "regex_capture lit (c # cs) =
     (let rest = takeWhile (\<lambda>x. \<not> is_line_terminator x) (drop (length lit) (c # cs))
      in if startsWith (c # cs) lit \<and> rest \<noteq> [] then Some rest
         else regex_capture lit cs)"

text \<open>\<^verbatim>\<open>/\/list/\<close> and the other patterns without a capture: the literal occurs somewhere.\<close>

fun regex_test :: "string \<Rightarrow> string \<Rightarrow> bool" where
  "regex_test lit [] = (lit = [])"
| "regex_test lit (c # cs) = (startsWith (c # cs) lit \<or> regex_test lit cs)"


section \<open>The libraries\<close>

text \<open>
  What the bot takes from its libraries is a parameter of the model. From \<^verbatim>\<open>ip-cidr\<close>:
  \<^verbatim>\<open>CIDR.isValidCIDR(text)\<close> and \<^verbatim>\<open>new CIDR(cidrText).contains(addressText)\<close>. From the
  storage driver and engine: \<open>column_text n\<close>, the text that the TEXT column \<^verbatim>\<open>user_id\<close> holds
  once the number \<open>n\<close> was bound to it, which is what a later SELECT hands back in
  \<^verbatim>\<open>row.user_id\<close> (the driver binds a number that fits 32 bits as an integer, whose text
  is its decimal digits, and any other number as a float, whose text has a fractional
  part or an exponent). From the runtime: \<open>big_number_text n\<close>, the text of an
  integer-valued number \<open>n\<close> beyond $2^{53}$ in a template literal.
\<close>

record libraries =
  isValidCIDR :: "string \<Rightarrow> bool"
  contains :: "string \<Rightarrow> string \<Rightarrow> bool"
  column_text :: "int \<Rightarrow> string"
  big_number_text :: "int \<Rightarrow> string"

text \<open>Template-literal rendering of an integer-valued double of any magnitude.\<close>

definition show_double :: "libraries \<Rightarrow> int \<Rightarrow> string" where
  "show_double L i = (if \<bar>i\<bar> \<le> 2 ^ 53 then show_int i else big_number_text L i)"

section \<open>The table \<^verbatim>\<open>ip_addresses\<close>\<close>

text \<open>
  \<^verbatim>\<open>id INTEGER PRIMARY KEY AUTOINCREMENT, user_id TEXT NOT NULL, ip_address TEXT, cidr TEXT\<close>.
  A nullable column is an \<open>option\<close>. The handlers bind the numeric Telegram user
  identifier to \<^verbatim>\<open>user_id\<close>. The row of the model stores the number that was bound; the
  column holds its text \<open>column_text\<close>, and that text is what the handlers print. The
  engine compares the column with the text of the number a query binds; the text
  determines the number for the identifiers Telegram issues (below $10^{15}$), so the
  model compares the numbers. Rows are kept in the order of their identifiers, the order
  in which a scan of the table returns them.
\<close>

record row =
  row_id :: nat
  user_id :: int
  ip_address :: "string option"
  cidr :: "string option"

record database =
  ip_addresses :: "row list"
  sequence :: nat

definition empty_database :: database where
  "empty_database = \<lparr>ip_addresses = [], sequence = 0\<rparr>"

text \<open>\<^verbatim>\<open>WHERE user_id = ? AND (ip_address = ? OR cidr = ?)\<close>; a NULL column equals nothing.\<close>

definition where_clause :: "int \<Rightarrow> string \<Rightarrow> string \<Rightarrow> row \<Rightarrow> bool" where
  "where_clause uid p_ip p_cidr r =
     (user_id r = uid \<and> (ip_address r = Some p_ip \<or> cidr r = Some p_cidr))"

text \<open>\<^verbatim>\<open>db.get(SELECT ...)\<close>: the first matching row, if any.\<close>

definition db_get :: "database \<Rightarrow> int \<Rightarrow> string \<Rightarrow> string \<Rightarrow> row option" where
  "db_get d uid p_ip p_cidr = find (where_clause uid p_ip p_cidr) (ip_addresses d)"

text \<open>\<^verbatim>\<open>db.run(DELETE ...)\<close>: the table without the matching rows, and \<^verbatim>\<open>this.changes\<close>.\<close>

definition db_delete :: "database \<Rightarrow> int \<Rightarrow> string \<Rightarrow> string \<Rightarrow> database \<times> nat" where
  "db_delete d uid p_ip p_cidr =
     (d\<lparr>ip_addresses := filter (\<lambda>r. \<not> where_clause uid p_ip p_cidr r) (ip_addresses d)\<rparr>,
      length (filter (where_clause uid p_ip p_cidr) (ip_addresses d)))"

text \<open>
  Numbers that may be \<^verbatim>\<open>NaN\<close> (a page parsed from a callback token). \<open>Number i\<close> is the
  integer-valued double \<open>i\<close>; sums and products are rounded to a double.
\<close>

datatype number = Number int | NaN

definition number_add :: "number \<Rightarrow> int \<Rightarrow> number" where
  "number_add n k = (case n of Number i \<Rightarrow> Number (round_double (i + k)) | NaN \<Rightarrow> NaN)"

definition number_times :: "number \<Rightarrow> int \<Rightarrow> number" where
  "number_times n k = (case n of Number i \<Rightarrow> Number (round_double (i * k)) | NaN \<Rightarrow> NaN)"

definition number_positive :: "number \<Rightarrow> bool" where
  "number_positive n = (case n of Number i \<Rightarrow> i > 0 | NaN \<Rightarrow> False)"

definition show_number :: "libraries \<Rightarrow> number \<Rightarrow> string" where
  "show_number L n = (case n of Number i \<Rightarrow> show_double L i | NaN \<Rightarrow> ''NaN'')"

text \<open>
  \<^verbatim>\<open>db.all(SELECT * FROM ip_addresses LIMIT ? OFFSET ?)\<close>. The storage engine refuses an
  offset that is no 64-bit integer (\<^verbatim>\<open>NaN\<close> is bound as NULL; an integer-valued float is
  taken for its integer when that lies strictly between $-2^{63}$ and $2^{63}$) and reads
  a negative offset as zero.
\<close>

definition db_all_limit :: "database \<Rightarrow> nat \<Rightarrow> number \<Rightarrow> string + row list" where
  "db_all_limit d limit offset =
     (case offset of
        NaN \<Rightarrow> Inl ''SQLITE_MISMATCH: datatype mismatch''
      | Number k \<Rightarrow>
          if - (2 ^ 63) < k \<and> k < 2 ^ 63
          then Inr (take limit (drop (nat k) (ip_addresses d)))
          else Inl ''SQLITE_MISMATCH: datatype mismatch'')"

text \<open>
  \<^verbatim>\<open>addEntry(userId, input, isCidr, callback)\<close>: one INSERT naming the column chosen by
  \<^verbatim>\<open>isCidr\<close>; the other column stays NULL. The first argument is what the storage engine
  answers to this statement: \<open>None\<close> when it succeeds, the error message when it fails
  (then nothing is written). The result carries the \<^verbatim>\<open>err\<close> handed to the callback.
\<close>

definition addEntry ::
  "string option \<Rightarrow> database \<Rightarrow> int \<Rightarrow> string \<Rightarrow> bool \<Rightarrow> database \<times> string option" where
  "addEntry engine_err d userId input isCidr =
     (case engine_err of
        Some e \<Rightarrow> (d, Some e)
      | None \<Rightarrow>
          (d\<lparr>ip_addresses := ip_addresses d @
                [\<lparr>row_id = Suc (sequence d), user_id = userId,
                  ip_address = (if isCidr then None else Some input),
                  cidr = (if isCidr then Some input else None)\<rparr>],
             sequence := Suc (sequence d)\<rparr>, None))"

section \<open>Bot state, messages and outcomes\<close>

text \<open>
  \<^verbatim>\<open>batchAddData[chatId] = { userId, addresses, messageId }\<close> and \<^verbatim>\<open>listPage[chatId]\<close>
  are dictionaries keyed by the chat identifier.
\<close>

record batch =
  userId :: int
  addresses :: "string list"
  messageId :: "int option"

record state =
  db :: database
  listPage :: "int \<Rightarrow> number option"
  batchAddData :: "int \<Rightarrow> batch option"

definition initial_state :: state where
  "initial_state = \<lparr>db = empty_database, listPage = (\<lambda>_. None), batchAddData = (\<lambda>_. None)\<rparr>"

text \<open>What the bot asks of the transport. A message carries its inline keyboard (rows of buttons).\<close>

datatype button = Button (btn_text: string) (callback_data: string)

datatype action =
    SendMessage int string "button list list"
  | DeleteMessage int string
  | AnswerCallbackQuery string

datatype js_error = TypeError

text \<open>
  A handler leaves a state, the requests it made in order, and the exception it threw,
  if any (what it did before throwing stays done). Console logging is left out.
\<close>

record outcome =
  st :: state
  sent :: "action list"
  thrown :: "js_error option"

definition reply :: "state \<Rightarrow> action list \<Rightarrow> outcome" where
  "reply s acts = \<lparr>st = s, sent = acts, thrown = None\<rparr>"

text \<open>An inbound message: \<^verbatim>\<open>msg.chat.id\<close>, \<^verbatim>\<open>msg.from.id\<close>, \<^verbatim>\<open>msg.text\<close> (absent on a photo).\<close>

record msg =
  chat_id :: int
  from_id :: int
  msg_text :: "string option"

text \<open>A button press: \<^verbatim>\<open>callbackQuery.id\<close>, \<^verbatim>\<open>.message.chat.id\<close>, \<^verbatim>\<open>.from.id\<close>, \<^verbatim>\<open>.data\<close>.\<close>

record callback =
  cq_id :: string
  cq_chat_id :: int
  cq_from_id :: int
  cq_data :: string

section \<open>Command handlers\<close>

text \<open>
  Each storage call answers through a callback; the model runs a handler to its end in
  one step. What the storage engine answers (an error message, or \<open>None\<close> for success)
  is an argument of the handler that makes the call.
\<close>

definition line_feed :: string where
  "line_feed = [CHR 0x0A]"

definition helpMessage :: string where
  "helpMessage = join line_feed
     ['''',
      ''Welcome to the IP & CIDR Manager Bot!'',
      '''',
      ''Available commands:'',
      ''/start - Start the bot'',
      ''/help - Show this help message'',
      ''/add <IP or CIDR> - Add an IP address or CIDR'',
      ''/delete <IP or CIDR> - Delete an IP address or CIDR'',
      ''/list - List all stored IP addresses and CIDRs'',
      ''/check <IP or CIDR> - Check if an IP address is within a stored CIDR or if a CIDR exists'',
      ''/batchadd - Batch add multiple IP addresses or CIDRs'',
      '''']"

text \<open>\<^verbatim>\<open>bot.onText(/\/start|\/help/, ...)\<close>\<close>

definition start_help_handler :: "state \<Rightarrow> msg \<Rightarrow> outcome" where
  "start_help_handler s m = reply s [SendMessage (chat_id m) helpMessage []]"

text \<open>
  \<^verbatim>\<open>bot.onText(/\/add (.+)/, ...)\<close>. The existence query binds
  \<^verbatim>\<open>[userId, input, isCidr ? "" : input]\<close>: the second parameter is compared with
  \<^verbatim>\<open>ip_address\<close>, the third with \<^verbatim>\<open>cidr\<close>.
\<close>

definition add_handler ::
  "libraries \<Rightarrow> string option \<Rightarrow> string option \<Rightarrow> state \<Rightarrow> msg \<Rightarrow> string \<Rightarrow> outcome" where
  "add_handler L get_err run_err s m match1 =
     (let userId = from_id m;
          input = trim match1;
          isCidr = isValidCIDR L input
      in case get_err of
           Some e \<Rightarrow> reply s [SendMessage (chat_id m) (''Error checking if it exists: '' @ e) []]
         | None \<Rightarrow>
             (case db_get (db s) userId input (if isCidr then '''' else input) of
                Some r \<Rightarrow>
                  reply s [SendMessage (chat_id m) (''Address '' @ input @ '' has already been added.'') []]
              | None \<Rightarrow>
                  (case addEntry run_err (db s) userId input isCidr of
                     (d, Some e) \<Rightarrow>
                       reply (s\<lparr>db := d\<rparr>) [SendMessage (chat_id m) (''Error adding entry: '' @ e) []]
                   | (d, None) \<Rightarrow>
                       reply (s\<lparr>db := d\<rparr>)
                         [SendMessage (chat_id m)
                            ((if isCidr then ''CIDR'' else ''IP address'') @ '' '' @ input @
                             '' added successfully.'') []])))"

text \<open>\<^verbatim>\<open>bot.onText(/\/delete (.+)/, ...)\<close>\<close>

definition delete_handler :: "string option \<Rightarrow> state \<Rightarrow> msg \<Rightarrow> string \<Rightarrow> outcome" where
  "delete_handler run_err s m match1 =
     (let userId = from_id m;
          input = trim match1
      in case run_err of
           Some e \<Rightarrow> reply s [SendMessage (chat_id m) (''Error deleting the entry: '' @ e) []]
         | None \<Rightarrow>
             (case db_delete (db s) userId input input of
                (d, changes) \<Rightarrow>
                  if changes > 0
                  then reply (s\<lparr>db := d\<rparr>)
                         [SendMessage (chat_id m) (''Entry '' @ input @ '' deleted successfully.'') []]
                  else reply (s\<lparr>db := d\<rparr>)
                         [SendMessage (chat_id m) (''No entry found for '' @ input @ ''.'') []]))"

text \<open>
  \<^verbatim>\<open>listIpAddresses(chatId, page)\<close>. A row is rendered by the template
  \<^verbatim>\<open>`ID: ${row.id}, User: ${row.user_id}, IP: ${row.ip_address}, CIDR: ${row.cidr}`\<close>,
  where a NULL column reads \<^verbatim>\<open>null\<close>, \<^verbatim>\<open>row.user_id\<close> is the text of the column and
  \<^verbatim>\<open>row.id\<close> is the identifier as a double.
\<close>

definition show_nullable :: "string option \<Rightarrow> string" where
  "show_nullable v = (case v of None \<Rightarrow> ''null'' | Some x \<Rightarrow> x)"

definition format_row :: "libraries \<Rightarrow> row \<Rightarrow> string" where
  "format_row L r =
     ''ID: '' @ show_double L (round_double (int (row_id r))) @
     '', User: '' @ column_text L (user_id r) @
     '', IP: '' @ show_nullable (ip_address r) @ '', CIDR: '' @ show_nullable (cidr r)"

definition listIpAddresses ::
  "libraries \<Rightarrow> string option \<Rightarrow> state \<Rightarrow> int \<Rightarrow> number \<Rightarrow> outcome" where
  "listIpAddresses L all_err s chatId page =
     (let limit = 10;
          offset = number_times page (int limit)
      in case (case all_err of Some e \<Rightarrow> Inl e | None \<Rightarrow> db_all_limit (db s) limit offset) of
           Inl e \<Rightarrow> reply s [SendMessage chatId (''Error fetching list: '' @ e) []]
         | Inr rows \<Rightarrow>
             (let response = join line_feed (map (format_row L) rows);
                  paginationKeyboard =
                    (if number_positive page
                     then [Button ''Previous'' (''prev_page_'' @ show_number L page)] else []) @
                    (if length rows = limit
                     then [Button ''Next'' (''next_page_'' @ show_number L page)] else [])
              in reply s
                   [SendMessage chatId (if response = [] then ''No entries found.'' else response)
                      [paginationKeyboard]]))"

text \<open>\<^verbatim>\<open>bot.onText(/\/list/, ...)\<close>\<close>

definition list_handler :: "libraries \<Rightarrow> string option \<Rightarrow> state \<Rightarrow> msg \<Rightarrow> outcome" where
  "list_handler L all_err s m =
     (let chatId = chat_id m;
          s1 = s\<lparr>listPage := (listPage s)(chatId := Some (Number 0))\<rparr>
      in listIpAddresses L all_err s1 chatId (Number 0))"

text \<open>
  The body of the \<^verbatim>\<open>confirm_batch_add\<close> branch: \<^verbatim>\<open>addresses.map(address => ...)\<close> issues one
  \<^verbatim>\<open>addEntry\<close> per address, with no \<^verbatim>\<open>db.serialize\<close>, and counts its callback as a success
  or an error. The storage engine runs the statements in an order of its own:
  \<open>rank\<close> ranks the candidates (by their positions in the list), the statement of a
  lower rank runs first, and every order is that of some ranking. \<open>errs i\<close> is what the
  engine answers to the statement of the candidate at position \<open>i\<close>.
\<close>

definition completion_order :: "(nat \<Rightarrow> nat) \<Rightarrow> string list \<Rightarrow> (nat \<times> string) list" where
  "completion_order rank addrs = sort_key (\<lambda>(i, address). rank i) (enumerate 0 addrs)"

text \<open>
  The statements in the order in which they complete; the triple is the database with
  \<^verbatim>\<open>successCount\<close> and \<^verbatim>\<open>errorCount\<close>.
\<close>

fun addPromises ::
  "libraries \<Rightarrow> (nat \<Rightarrow> string option) \<Rightarrow> int \<Rightarrow> (nat \<times> string) list \<Rightarrow>
   database \<times> nat \<times> nat \<Rightarrow> database \<times> nat \<times> nat" where
  "addPromises L errs uid [] acc = acc"
| "addPromises L errs uid ((i, address) # rest) (d, successCount, errorCount) =
     (let isCidr = isValidCIDR L address
      in case addEntry (errs i) d uid address isCidr of
           (d', Some e) \<Rightarrow> addPromises L errs uid rest (d', successCount, Suc errorCount)
         | (d', None) \<Rightarrow> addPromises L errs uid rest (d', Suc successCount, errorCount))"

text \<open>
  \<^verbatim>\<open>if (batchAddData[chatId].messageId) bot.deleteMessage(chatId, messageId.toString())\<close>:
  an absent identifier and the identifier 0 are both falsy.
\<close>

definition retract_prompt :: "int \<Rightarrow> batch \<Rightarrow> action list" where
  "retract_prompt chatId b =
     (case messageId b of
        None \<Rightarrow> []
      | Some mid \<Rightarrow> if mid \<noteq> 0 then [DeleteMessage chatId (show_int mid)] else [])"

text \<open>
  \<^verbatim>\<open>bot.on('callback_query', ...)\<close>. On a pagination token \<^verbatim>\<open>answerCallbackQuery\<close> is
  requested before the listing's storage callback sends the page. In the cancel branch
  \<^verbatim>\<open>batchAddData[chatId].messageId\<close> is read with no test that the entry exists: on an
  absent entry the read throws a \<^verbatim>\<open>TypeError\<close>, after the message was sent.
\<close>

definition callback_query ::
  "libraries \<Rightarrow> string option \<Rightarrow> (nat \<Rightarrow> string option) \<Rightarrow> (nat \<Rightarrow> nat) \<Rightarrow> state \<Rightarrow>
   callback \<Rightarrow> outcome" where
  "callback_query L all_err errs rank s cq =
     (let chatId = cq_chat_id cq;
          data = cq_data cq
      in if startsWith data ''prev_page_'' \<or> startsWith data ''next_page_'' then
           (let page = (case drop 2 (split_on CHR ''_'' data) of
                          [] \<Rightarrow> NaN
                        | x # _ \<Rightarrow> (case parseInt x of None \<Rightarrow> NaN | Some i \<Rightarrow> Number i));
                newPage = (if startsWith data ''prev_page_''
                           then number_add page (- 1) else number_add page 1);
                s1 = s\<lparr>listPage := (listPage s)(chatId := Some newPage)\<rparr>;
                r = listIpAddresses L all_err s1 chatId newPage
            in r\<lparr>sent := AnswerCallbackQuery (cq_id cq) # sent r\<rparr>)
         else if data = ''confirm_batch_add'' \<and>
                 (case batchAddData s chatId of
                    None \<Rightarrow> False
                  | Some b \<Rightarrow> userId b = cq_from_id cq) then
           (case batchAddData s chatId of
              None \<Rightarrow> reply s []
            | Some b \<Rightarrow>
                (case addPromises L errs (cq_from_id cq) (completion_order rank (addresses b))
                        (db s, 0, 0) of
                   (d, successCount, errorCount) \<Rightarrow>
                     reply (s\<lparr>db := d, batchAddData := (batchAddData s)(chatId := None)\<rparr>)
                       (SendMessage chatId
                          (''Batch add completed. '' @ show_nat successCount @
                           '' addresses added successfully, '' @ show_nat errorCount @
                           '' errors.'') []
                        # retract_prompt chatId b)))
         else if data = ''cancel_batch_add'' then
           (case batchAddData s chatId of
              None \<Rightarrow>
                \<lparr>st = s, sent = [SendMessage chatId ''Batch add cancelled.'' []],
                 thrown = Some TypeError\<rparr>
            | Some b \<Rightarrow>
                reply (s\<lparr>batchAddData := (batchAddData s)(chatId := None)\<rparr>)
                  (SendMessage chatId ''Batch add cancelled.'' [] # retract_prompt chatId b))
         else reply s [])"

text \<open>
  \<^verbatim>\<open>bot.onText(/\/check (.+)/, ...)\<close>. Both loops stop at the first row that matches
  (\<^verbatim>\<open>found = true; break\<close>); the pair is the message sent inside the loop and \<^verbatim>\<open>found\<close>.
  \<^verbatim>\<open>CIDR.isValidCIDR\<close> answers false on a NULL column (not a string); \<^verbatim>\<open>row.user_id\<close> is
  the text of the column.
\<close>

fun check_cidr_loop :: "int \<Rightarrow> string \<Rightarrow> row list \<Rightarrow> action list \<times> bool" where
  "check_cidr_loop chatId input [] = ([], False)"
| "check_cidr_loop chatId input (r # rows) =
     (if cidr r = Some input
      then ([SendMessage chatId (''CIDR '' @ input @ '' exists in your records.'') []], True)
      else check_cidr_loop chatId input rows)"

definition row_matches :: "libraries \<Rightarrow> string \<Rightarrow> row \<Rightarrow> bool" where
  "row_matches L input r =
     (ip_address r = Some input \<or>
      (case cidr r of None \<Rightarrow> False | Some c \<Rightarrow> isValidCIDR L c \<and> contains L c input))"

fun check_ip_loop :: "libraries \<Rightarrow> int \<Rightarrow> string \<Rightarrow> row list \<Rightarrow> action list \<times> bool" where
  "check_ip_loop L chatId input [] = ([], False)"
| "check_ip_loop L chatId input (r # rows) =
     (if row_matches L input r
      then ([SendMessage chatId
               (input @ '' is within CIDR '' @ show_nullable (cidr r) @ '' from user '' @
                column_text L (user_id r)) []], True)
      else check_ip_loop L chatId input rows)"

definition check_handler :: "libraries \<Rightarrow> string option \<Rightarrow> state \<Rightarrow> msg \<Rightarrow> string \<Rightarrow> outcome" where
  "check_handler L all_err s m match1 =
     (let input = trim match1
      in case all_err of
           Some e \<Rightarrow> reply s [SendMessage (chat_id m) (''Error checking IP: '' @ e) []]
         | None \<Rightarrow>
             (let rows = ip_addresses (db s)
              in if isValidCIDR L input then
                   (case check_cidr_loop (chat_id m) input rows of
                      (acts, found) \<Rightarrow>
                        reply s (acts @
                          (if \<not> found
                           then [SendMessage (chat_id m)
                                   (''CIDR '' @ input @ '' does not exist in your records.'') []]
                           else [])))
                 else
                   (case check_ip_loop L (chat_id m) input rows of
                      (acts, found) \<Rightarrow>
                        reply s (acts @
                          (if \<not> found
                           then [SendMessage (chat_id m)
                                   (input @ '' is not within any stored CIDR.'') []]
                           else [])))))"

text \<open>\<^verbatim>\<open>bot.onText(/\/batchadd/, ...)\<close>\<close>

definition batchadd_handler :: "state \<Rightarrow> msg \<Rightarrow> outcome" where
  "batchadd_handler s m =
     (let chatId = chat_id m
      in reply
           (s\<lparr>batchAddData := (batchAddData s)
                (chatId := Some \<lparr>userId = from_id m, addresses = [], messageId = None\<rparr>)\<rparr>)
           [SendMessage chatId ''Please send the IP addresses or CIDRs, one per line.'' []])"

text \<open>
  \<^verbatim>\<open>bot.on('message', ...)\<close>. A message without text makes \<^verbatim>\<open>msg.text.trim()\<close> throw while
  a batch is pending. The identifier of the confirmation prompt is recorded later, when
  the transport has sent it (\<open>prompt_sent\<close> below).
\<close>

definition message_handler :: "state \<Rightarrow> msg \<Rightarrow> outcome" where
  "message_handler s m =
     (let chatId = chat_id m
      in case batchAddData s chatId of
           None \<Rightarrow> reply s []
         | Some b \<Rightarrow>
             (case msg_text m of
                None \<Rightarrow> \<lparr>st = s, sent = [], thrown = Some TypeError\<rparr>
              | Some t \<Rightarrow>
                  (let text = trim t
                   in if text \<noteq> [] then
                        (let addrs = filter (\<lambda>line. line \<noteq> [])
                                       (map trim (split_on CHR 0x0A text));
                             confirmMessage =
                               ''Are you sure you want to add the following addresses?'' @
                               line_feed @ line_feed @ join line_feed addrs
                         in reply
                              (s\<lparr>batchAddData := (batchAddData s)
                                   (chatId := Some (b\<lparr>addresses := addrs\<rparr>))\<rparr>)
                              [SendMessage chatId confirmMessage
                                 [[Button ''Yes'' ''confirm_batch_add'',
                                   Button ''No'' ''cancel_batch_add'']]])
                      else
                        reply (s\<lparr>batchAddData := (batchAddData s)(chatId := None)\<rparr>)
                          [SendMessage chatId ''No valid addresses found. Please try again.'' []])))"

text \<open>
  \<^verbatim>\<open>.then((sentMessage) => { batchAddData[chatId].messageId = sentMessage.message_id; })\<close>:
  when the transport has sent the prompt, its identifier is written into whichever entry
  the chat has by then; on an absent entry the assignment throws.
\<close>

definition prompt_sent :: "state \<Rightarrow> int \<Rightarrow> int \<Rightarrow> outcome" where
  "prompt_sent s chatId message_id =
     (case batchAddData s chatId of
        None \<Rightarrow> \<lparr>st = s, sent = [], thrown = Some TypeError\<rparr>
      | Some b \<Rightarrow>
          reply (s\<lparr>batchAddData := (batchAddData s)
                      (chatId := Some (b\<lparr>messageId := Some message_id\<rparr>))\<rparr>) [])"

section \<open>Updates from the transport\<close>

text \<open>
  For an inbound message the transport first emits \<^verbatim>\<open>message\<close> (the batch collector),
  then tries every \<^verbatim>\<open>onText\<close> pattern in the order of registration; an exception in one
  listener ends the processing of the update. \<open>env\<close> holds what the storage engine
  answers during one update and the order in which it runs the statements of a batch.
  The third kind of update is the transport's word that a confirmation prompt was sent
  to a chat, with the prompt's \<^verbatim>\<open>message_id\<close>.
\<close>

record env =
  get_err :: "string option"
  insert_err :: "nat \<Rightarrow> string option"
  insert_rank :: "nat \<Rightarrow> nat"
  delete_err :: "string option"
  all_err :: "string option"

definition no_faults :: env where
  "no_faults = \<lparr>get_err = None, insert_err = (\<lambda>_. None), insert_rank = (\<lambda>_. 0),
                 delete_err = None, all_err = None\<rparr>"

definition and_then :: "outcome \<Rightarrow> (state \<Rightarrow> outcome) \<Rightarrow> outcome" where
  "and_then r f =
     (case thrown r of
        Some e \<Rightarrow> r
      | None \<Rightarrow> (let r' = f (st r) in r'\<lparr>sent := sent r @ sent r'\<rparr>))"

definition on_text :: "libraries \<Rightarrow> env \<Rightarrow> state \<Rightarrow> msg \<Rightarrow> string \<Rightarrow> outcome" where
  "on_text L E s m t =
     and_then (if regex_test ''/start'' t \<or> regex_test ''/help'' t
               then start_help_handler s m else reply s []) (\<lambda>s.
     and_then (case regex_capture ''/add '' t of
                 Some c \<Rightarrow> add_handler L (get_err E) (insert_err E 0) s m c
               | None \<Rightarrow> reply s []) (\<lambda>s.
     and_then (case regex_capture ''/delete '' t of
                 Some c \<Rightarrow> delete_handler (delete_err E) s m c
               | None \<Rightarrow> reply s []) (\<lambda>s.
     and_then (if regex_test ''/list'' t then list_handler L (all_err E) s m else reply s []) (\<lambda>s.
     and_then (case regex_capture ''/check '' t of
                 Some c \<Rightarrow> check_handler L (all_err E) s m c
               | None \<Rightarrow> reply s []) (\<lambda>s.
     (if regex_test ''/batchadd'' t then batchadd_handler s m else reply s []))))))"

datatype update = Message msg | CallbackQuery callback | PromptSent int int

definition process_update :: "libraries \<Rightarrow> env \<Rightarrow> state \<Rightarrow> update \<Rightarrow> outcome" where
  "process_update L E s u =
     (case u of
        Message m \<Rightarrow>
          and_then (message_handler s m) (\<lambda>s.
            (case msg_text m of
               None \<Rightarrow> reply s []
             | Some t \<Rightarrow> on_text L E s m t))
      | CallbackQuery cq \<Rightarrow> callback_query L (all_err E) (insert_err E) (insert_rank E) s cq
      | PromptSent chatId message_id \<Rightarrow> prompt_sent s chatId message_id)"

text \<open>A run of the bot: the state after a sequence of updates, each with its environment.\<close>

fun run :: "libraries \<Rightarrow> state \<Rightarrow> (env \<times> update) list \<Rightarrow> state" where
  "run L s [] = s"
| "run L s ((E, u) # us) = run L (st (process_update L E s u)) us"

definition is_confirm :: "update \<Rightarrow> bool" where
  "is_confirm u =
     (case u of
        Message m \<Rightarrow> False
      | CallbackQuery cq \<Rightarrow> cq_data cq = ''confirm_batch_add''
      | PromptSent chatId message_id \<Rightarrow> False)"

section \<open>Properties of the record store\<close>

text \<open>
  Within one owner's records no \<open>(ip_address, cidr)\<close> pair occurs twice.
\<close>

definition unique_per_owner :: "row list \<Rightarrow> bool" where
  "unique_per_owner rows = distinct (map (\<lambda>r. (user_id r, ip_address r, cidr r)) rows)"

text \<open>
  The same for bare addresses alone: within one owner's records no \<^verbatim>\<open>ip_address\<close> occurs
  twice.
\<close>

definition unique_bare :: "database \<Rightarrow> bool" where
  "unique_bare d =
     distinct (map (\<lambda>r. (user_id r, ip_address r))
                 (filter (\<lambda>r. ip_address r \<noteq> None) (ip_addresses d)))"

text \<open>
  The row holds the value \<open>v\<close> for the owner \<open>uid\<close>, in the column its classification
  selects.
\<close>

definition stored_as :: "libraries \<Rightarrow> int \<Rightarrow> string \<Rightarrow> row \<Rightarrow> bool" where
  "stored_as L uid v r =
     (user_id r = uid \<and>
      ip_address r = (if isValidCIDR L v then None else Some v) \<and>
      cidr r = (if isValidCIDR L v then Some v else None))"

text \<open>
  Identifiers grow along the table and none exceeds the AUTOINCREMENT counter, so the
  order of a scan is the order of the identifiers.
\<close>

definition ids_ascending :: "database \<Rightarrow> bool" where
  "ids_ascending d =
     (sorted_wrt (\<lambda>a b. row_id a < row_id b) (ip_addresses d) \<and>
      (\<forall>r \<in> set (ip_addresses d). row_id r \<le> sequence d))"

section \<open>Example inputs\<close>

text \<open>
  A stand-in for the libraries on the example inputs below: a text is a CIDR block when
  it has a slash, a block contains the addresses that share its first octet, and the
  column text of a number is its decimal digits, followed by \<^verbatim>\<open>.0\<close> when the number does
  not fit 32 bits. No example renders a number beyond $2^{53}$.
\<close>

definition example_lib :: libraries where
  "example_lib =
     \<lparr>isValidCIDR = (\<lambda>s. CHR ''/'' \<in> set s),
      contains = (\<lambda>c a. takeWhile (\<lambda>x. x \<noteq> CHR ''.'') c = takeWhile (\<lambda>x. x \<noteq> CHR ''.'') a),
      column_text = (\<lambda>n. if - (2 ^ 31) \<le> n \<and> n < 2 ^ 31 then show_int n
                         else show_int n @ ''.0''),
      big_number_text = show_int\<rparr>"

definition text_from :: "int \<Rightarrow> int \<Rightarrow> string \<Rightarrow> env \<times> update" where
  "text_from chat user t =
     (no_faults, Message \<lparr>chat_id = chat, from_id = user, msg_text = Some t\<rparr>)"

definition prompt_at :: "int \<Rightarrow> int \<Rightarrow> env \<times> update" where
  "prompt_at chat message_id = (no_faults, PromptSent chat message_id)"

definition press :: "int \<Rightarrow> int \<Rightarrow> string \<Rightarrow> callback" where
  "press chat user token =
     \<lparr>cq_id = ''q'', cq_chat_id = chat, cq_from_id = user, cq_data = token\<rparr>"

text \<open>
  User 1 has started a batch in chat 7 and sent two candidates; the prompt was sent as
  message 1.
\<close>

definition pending_example :: state where
  "pending_example = run example_lib initial_state
      [text_from 7 1 ''/batchadd'', text_from 7 1 (''10.0.0.1'' @ line_feed @ ''10.0.0.0/8''),
       prompt_at 7 1]"

text \<open>
  User 1 has started a batch in chat 7 and sent five candidates; the prompt was sent as
  message 1.
\<close>

definition five_pending :: state where
  "five_pending = run example_lib initial_state
      [text_from 7 1 ''/batchadd'',
       text_from 7 1
         (join line_feed [''10.0.0.1'', ''10.0.0.2'', ''10.1.0.0/16'', ''10.0.0.4'', ''10.0.0.5'']),
       prompt_at 7 1]"

text \<open>The storage engine fails the statements of the second and the fourth candidate.\<close>

definition two_failures :: "nat \<Rightarrow> string option" where
  "two_failures k = (if k = 1 \<or> k = 3 then Some ''SQLITE_IOERR: disk I/O error'' else None)"



text \<open>
  Users 5000000000 (an identifier beyond 32 bits) and 2 have each stored a block; both
  blocks contain 10.1.2.3.
\<close>

definition two_blocks :: "(env \<times> update) list" where
  "two_blocks =
     [text_from 7 5000000000 ''/add 10.0.0.0/8'', text_from 7 2 ''/add 10.1.0.0/16'']"


section \<open>Evaluation and auxiliary facts\<close>

lemmas bot_defs = example_lib_def text_from_def prompt_at_def press_def no_faults_def
  initial_state_def empty_database_def process_update_def on_text_def and_then_def reply_def
  message_handler_def prompt_sent_def completion_order_def batchadd_handler_def
  add_handler_def delete_handler_def
  list_handler_def listIpAddresses_def check_handler_def start_help_handler_def
  callback_query_def retract_prompt_def trim_def is_white_space_def startsWith_def
  is_line_terminator_def line_feed_def db_get_def db_delete_def db_all_limit_def
  addEntry_def where_clause_def row_matches_def number_add_def number_times_def
  number_positive_def show_number_def show_double_def show_int_def show_nullable_def
  format_row_def
  parseInt_def parse_unsigned_def digit_val_def digit_char_def

lemma pending_example_eq:
  "pending_example =
     \<lparr>db = empty_database, listPage = (\<lambda>_. None),
      batchAddData = (\<lambda>_. None)
        (7 := Some \<lparr>userId = 1, addresses = [''10.0.0.1'', ''10.0.0.0/8''],
                    messageId = Some 1\<rparr>)\<rparr>"
  unfolding pending_example_def by (simp add: bot_defs Let_def)

lemma five_pending_eq:
  "five_pending =
     \<lparr>db = empty_database, listPage = (\<lambda>_. None),
      batchAddData = (\<lambda>_. None)
        (7 := Some \<lparr>userId = 1,
                    addresses = [''10.0.0.1'', ''10.0.0.2'', ''10.1.0.0/16'', ''10.0.0.4'',
                                 ''10.0.0.5''],
                    messageId = Some 1\<rparr>)\<rparr>"
  unfolding five_pending_def by (simp add: bot_defs Let_def)

lemma two_blocks_eq:
  "run example_lib initial_state two_blocks =
     \<lparr>db = \<lparr>ip_addresses =
              [\<lparr>row_id = 1, user_id = 5000000000, ip_address = None,
                cidr = Some ''10.0.0.0/8''\<rparr>,
               \<lparr>row_id = 2, user_id = 2, ip_address = None, cidr = Some ''10.1.0.0/16''\<rparr>],
            sequence = 2\<rparr>,
      listPage = (\<lambda>_. None), batchAddData = (\<lambda>_. None)\<rparr>"
  unfolding two_blocks_def by (simp add: bot_defs Let_def)



lemma find_append_cases:
  "find P (xs @ ys) = (case find P xs of None \<Rightarrow> find P ys | Some x \<Rightarrow> Some x)"
  by (induction xs) auto

subsection \<open>Rendering\<close>



subsection \<open>The batch loop\<close>

lemma addPromises_Cons_fail:
  "errs i = Some e \<Longrightarrow>
   addPromises L errs uid ((i, a) # rest) (d, sc, ec) =
     addPromises L errs uid rest (d, sc, Suc ec)"
  by (simp add: addEntry_def)

lemma addPromises_Cons_ok:
  "errs i = None \<Longrightarrow>
   addPromises L errs uid ((i, a) # rest) (d, sc, ec) =
     addPromises L errs uid rest (fst (addEntry None d uid a (isValidCIDR L a)), Suc sc, ec)"
  by (simp add: addEntry_def)

lemma error_count:
  "length (filter (\<lambda>x. \<not> P x) xs) = length xs - length (filter P xs)"
  using sum_length_filter_compl [of P xs] by simp

lemma addPromises_successCount:
  "fst (snd (addPromises L errs uid ias (d, sc, ec))) =
     sc + length (filter (\<lambda>p. errs (fst p) = None) ias)"
proof (induction ias arbitrary: d sc ec)
  case Nil
  then show ?case by simp
next
  case (Cons p rest)
  obtain i a where p: "p = (i, a)" by (cases p)
  show ?case
  proof (cases "errs i")
    case None
    then show ?thesis
      unfolding p by (simp only: addPromises_Cons_ok Cons.IH) simp
  next
    case (Some e)
    then show ?thesis
      unfolding p by (simp only: addPromises_Cons_fail Cons.IH) simp
  qed
qed

lemma addPromises_errorCount:
  "snd (snd (addPromises L errs uid ias (d, sc, ec))) =
     ec + length (filter (\<lambda>p. \<not> errs (fst p) = None) ias)"
proof (induction ias arbitrary: d sc ec)
  case Nil
  then show ?case by simp
next
  case (Cons p rest)
  obtain i a where p: "p = (i, a)" by (cases p)
  show ?case
  proof (cases "errs i")
    case None
    then show ?thesis
      unfolding p by (simp only: addPromises_Cons_ok Cons.IH) simp
  next
    case (Some e)
    then show ?thesis
      unfolding p by (simp only: addPromises_Cons_fail Cons.IH) simp
  qed
qed

lemma addPromises_rows:
  "\<exists>new. ip_addresses (fst (addPromises L errs uid ias (d, sc, ec))) = ip_addresses d @ new \<and>
         length new = length (filter (\<lambda>p. errs (fst p) = None) ias) \<and>
         (\<forall>p \<in> set ias. errs (fst p) = None \<longrightarrow> (\<exists>r \<in> set new. stored_as L uid (snd p) r))"
proof (induction ias arbitrary: d sc ec)
  case Nil
  then show ?case by simp
next
  case (Cons p rest)
  obtain i a where p: "p = (i, a)" by (cases p)
  show ?case
  proof (cases "errs i")
    case (Some e)
    obtain new where new:
      "ip_addresses (fst (addPromises L errs uid rest (d, sc, Suc ec))) = ip_addresses d @ new"
      "length new = length (filter (\<lambda>p. errs (fst p) = None) rest)"
      "\<forall>p \<in> set rest. errs (fst p) = None \<longrightarrow> (\<exists>r \<in> set new. stored_as L uid (snd p) r)"
      using Cons.IH [of d sc "Suc ec"] by blast
    have each: "\<forall>x \<in> set (p # rest). errs (fst x) = None \<longrightarrow>
        (\<exists>r \<in> set new. stored_as L uid (snd x) r)"
      using new(3) Some p by auto
    have count: "length new = length (filter (\<lambda>p. errs (fst p) = None) (p # rest))"
      using new(2) Some p by simp
    have rows: "ip_addresses (fst (addPromises L errs uid (p # rest) (d, sc, ec))) =
                  ip_addresses d @ new"
      using new(1) Some unfolding p by (simp only: addPromises_Cons_fail)
    show ?thesis
      using rows count each by blast
  next
    case None
    let ?d1 = "fst (addEntry None d uid a (isValidCIDR L a))"
    let ?row = "\<lparr>row_id = Suc (sequence d), user_id = uid,
                 ip_address = (if isValidCIDR L a then None else Some a),
                 cidr = (if isValidCIDR L a then Some a else None)\<rparr>"
    have d1: "ip_addresses ?d1 = ip_addresses d @ [?row]"
      by (simp add: addEntry_def)
    have stored: "stored_as L uid a ?row"
      by (simp add: stored_as_def)
    obtain new where new:
      "ip_addresses (fst (addPromises L errs uid rest (?d1, Suc sc, ec))) = ip_addresses ?d1 @ new"
      "length new = length (filter (\<lambda>p. errs (fst p) = None) rest)"
      "\<forall>p \<in> set rest. errs (fst p) = None \<longrightarrow> (\<exists>r \<in> set new. stored_as L uid (snd p) r)"
      using Cons.IH [of ?d1 "Suc sc" ec] by blast
    have each: "\<forall>x \<in> set (p # rest). errs (fst x) = None \<longrightarrow>
        (\<exists>r \<in> set (?row # new). stored_as L uid (snd x) r)"
      using new(3) stored p by auto
    have count: "length (?row # new) = length (filter (\<lambda>p. errs (fst p) = None) (p # rest))"
      using new(2) None p by simp
    have rows: "ip_addresses (fst (addPromises L errs uid (p # rest) (d, sc, ec))) =
                  ip_addresses d @ (?row # new)"
      using new(1) d1 None unfolding p by (simp only: addPromises_Cons_ok) simp
    show ?thesis
      using rows count each by blast
  qed
qed

text \<open>Whatever the ranking, the statements that complete are those of the candidates.\<close>

lemma set_completion_order: "set (completion_order rank addrs) = set (enumerate 0 addrs)"
  by (simp add: completion_order_def)

lemma length_completion_order: "length (completion_order rank addrs) = length addrs"
  by (simp add: completion_order_def)

lemma candidate_in_completion_order:
  "k < length addrs \<Longrightarrow> (k, addrs ! k) \<in> set (completion_order rank addrs)"
  by (simp add: set_completion_order in_set_enumerate_eq)

lemma count_completion_order:
  "length (filter (\<lambda>p. P (fst p)) (completion_order rank addrs)) =
     length (filter P [0..<length addrs])"
proof -
  have "length (filter (\<lambda>p. P (fst p)) (completion_order rank addrs)) =
        length (filter (\<lambda>p. P (fst p)) (enumerate 0 addrs))"
    by (simp add: completion_order_def filter_sort)
  also have "\<dots> = length (map fst (filter (P \<circ> fst) (enumerate 0 addrs)))"
    by (simp add: comp_def)
  also have "\<dots> = length (filter P (map fst (enumerate 0 addrs)))"
    by (simp only: filter_map)
  also have "\<dots> = length (filter P [0..<length addrs])"
    by (simp add: map_fst_enumerate)
  finally show ?thesis .
qed

subsection \<open>Identifiers ascend in every reachable table\<close>

lemma ids_empty: "ids_ascending empty_database"
  by (simp add: ids_ascending_def empty_database_def)

lemma ids_addEntry: "ids_ascending d \<Longrightarrow> ids_ascending (fst (addEntry e d u v c))"
  by (cases e) (auto simp add: ids_ascending_def addEntry_def sorted_wrt_append)

lemma ids_db_delete: "ids_ascending d \<Longrightarrow> ids_ascending (fst (db_delete d u p q))"
  by (auto simp add: ids_ascending_def db_delete_def sorted_wrt_filter)

lemma ids_addPromises:
  "ids_ascending d \<Longrightarrow> ids_ascending (fst (addPromises L errs u ias (d, sc, ec)))"
proof (induction ias arbitrary: d sc ec)
  case Nil
  then show ?case by simp
next
  case (Cons p rest)
  obtain i a where p: "p = (i, a)" by (cases p)
  have step: "ids_ascending (fst (addEntry (errs i) d u a (isValidCIDR L a)))"
    using Cons.prems by (rule ids_addEntry)
  show ?case
  proof (cases "addEntry (errs i) d u a (isValidCIDR L a)")
    case (Pair d' e)
    with step have "ids_ascending d'" by simp
    then show ?thesis
      using Pair Cons.IH unfolding p by (cases e) simp_all
  qed
qed

lemma ids_addPromises_result:
  "ids_ascending d \<Longrightarrow> addPromises L errs u ias (d, sc, ec) = (d', sc', ec') \<Longrightarrow>
   ids_ascending d'"
  using ids_addPromises [of d L errs u ias sc ec] by simp

lemma and_then_keeps:
  assumes "P (st r)" and "\<And>s'. P s' \<Longrightarrow> P (st (f s'))"
  shows "P (st (and_then r f))"
  using assms by (simp add: and_then_def Let_def split: option.splits)

lemma ids_add_handler:
  "ids_ascending (db s) \<Longrightarrow> ids_ascending (db (st (add_handler L ge re s m c)))"
  using ids_addEntry [of "db s" re "from_id m" "trim c" "isValidCIDR L (trim c)"]
  by (auto simp add: add_handler_def reply_def Let_def split: option.splits prod.splits)

lemma ids_delete_handler:
  "ids_ascending (db s) \<Longrightarrow> ids_ascending (db (st (delete_handler re s m c)))"
  using ids_db_delete [of "db s" "from_id m" "trim c" "trim c"]
  by (auto simp add: delete_handler_def reply_def Let_def split: option.splits prod.splits)

lemma db_listIpAddresses: "db (st (listIpAddresses L ae s chat p)) = db s"
  by (simp add: listIpAddresses_def reply_def Let_def split: option.splits sum.splits)

lemma db_list_handler: "db (st (list_handler L ae s m)) = db s"
  by (simp add: list_handler_def db_listIpAddresses Let_def)

lemma db_check_handler: "db (st (check_handler L ae s m c)) = db s"
  by (simp add: check_handler_def reply_def Let_def split: option.splits prod.splits)

lemma db_message_handler: "db (st (message_handler s m)) = db s"
  by (simp add: message_handler_def reply_def Let_def split: option.splits)

lemma db_prompt_sent: "db (st (prompt_sent s chat mid)) = db s"
  by (simp add: prompt_sent_def reply_def split: option.splits)

lemma db_batchadd_handler: "db (st (batchadd_handler s m)) = db s"
  by (simp add: batchadd_handler_def reply_def Let_def)

lemma db_start_help_handler: "db (st (start_help_handler s m)) = db s"
  by (simp add: start_help_handler_def reply_def)

lemma ids_callback_query:
  "ids_ascending (db s) \<Longrightarrow> ids_ascending (db (st (callback_query L ae errs rank s cq)))"
  by (auto simp add: callback_query_def reply_def Let_def db_listIpAddresses
      split: option.splits prod.splits dest: ids_addPromises_result)

lemma ids_on_text:
  "ids_ascending (db s) \<Longrightarrow> ids_ascending (db (st (on_text L E s m t)))"
  unfolding on_text_def
  by (intro and_then_keeps [where P = "\<lambda>s. ids_ascending (db s)"])
     (auto simp add: ids_add_handler ids_delete_handler db_list_handler db_check_handler
        db_batchadd_handler db_start_help_handler reply_def split: option.splits)

lemma ids_process_update:
  "ids_ascending (db s) \<Longrightarrow> ids_ascending (db (st (process_update L E s u)))"
proof (cases u)
  case (Message m)
  then show "ids_ascending (db s) \<Longrightarrow> ?thesis"
    unfolding process_update_def
    by (auto intro!: and_then_keeps [where P = "\<lambda>s. ids_ascending (db s)"]
        simp add: db_message_handler ids_on_text reply_def split: option.splits)
next
  case (CallbackQuery cq)
  then show "ids_ascending (db s) \<Longrightarrow> ?thesis"
    by (simp add: process_update_def ids_callback_query)
next
  case (PromptSent chat mid)
  then show "ids_ascending (db s) \<Longrightarrow> ?thesis"
    by (simp add: process_update_def db_prompt_sent)
qed

lemma ids_run: "ids_ascending (db s) \<Longrightarrow> ids_ascending (db (run L s us))"
  by (induction us arbitrary: s) (auto simp add: ids_process_update)

lemma ids_reachable: "ids_ascending (db (run L initial_state us))"
  by (rule ids_run) (simp add: initial_state_def ids_empty)

subsection \<open>The scan of \<^verbatim>\<open>/check\<close>\<close>

lemma check_ip_loop_find:
  "check_ip_loop L chat input rows =
     (case find (row_matches L input) rows of
        None \<Rightarrow> ([], False)
      | Some r \<Rightarrow>
          ([SendMessage chat
              (input @ '' is within CIDR '' @ show_nullable (cidr r) @ '' from user '' @
               column_text L (user_id r)) []], True))"
  by (induction rows) simp_all

lemma find_lowest_id:
  assumes "sorted_wrt (\<lambda>a b. row_id a < row_id b) rows"
    and "r \<in> set rows" and "P r"
    and "\<forall>r' \<in> set rows. P r' \<longrightarrow> row_id r \<le> row_id r'"
  shows "find P rows = Some r"
  using assms
proof (induction rows)
  case Nil
  then show ?case by simp
next
  case (Cons x xs)
  show ?case
  proof (cases "P x")
    case True
    have "row_id r \<le> row_id x"
      using Cons.prems(4) True by simp
    moreover have "r \<noteq> x \<Longrightarrow> row_id x < row_id r"
      using Cons.prems(1,2) by auto
    ultimately have "r = x" by fastforce
    with True show ?thesis by simp
  next
    case False
    with Cons.prems(2,3) have "r \<in> set xs" by auto
    with Cons False show ?thesis by simp
  qed
qed

lemma find_none: "(\<forall>r \<in> set rows. \<not> P r) \<Longrightarrow> find P rows = None"
  by (simp add: find_None_iff)

subsection \<open>A bare address is stored once\<close>

lemma add_twice_bare_address_once:
  assumes "\<not> isValidCIDR L (trim c)"
  shows "add_handler L None None (st (add_handler L None None s m c)) m c =
           \<lparr>st = st (add_handler L None None s m c),
            sent = [SendMessage (chat_id m)
                      (''Address '' @ trim c @ '' has already been added.'') []],
            thrown = None\<rparr>"
proof (cases "find (where_clause (from_id m) (trim c) (trim c)) (ip_addresses (db s))")
  case None
  then show ?thesis
    using assms
    by (simp add: add_handler_def db_get_def addEntry_def where_clause_def reply_def Let_def
        find_append_cases split: option.splits)
next
  case (Some r)
  then show ?thesis
    using assms
    by (simp add: add_handler_def db_get_def reply_def Let_def)
qed

subsection \<open>Bare addresses stay unique as long as no batch is confirmed\<close>

lemma find_where_none:
  "find (where_clause u v w) rows = None \<Longrightarrow> r \<in> set rows \<Longrightarrow> user_id r = u \<Longrightarrow>
   ip_address r \<noteq> Some v"
  by (auto simp add: find_None_iff where_clause_def)

lemma unique_bare_add_handler:
  assumes "unique_bare (db s)"
  shows "unique_bare (db (st (add_handler L ge re s m c)))"
proof (cases "ge = None \<and> re = None \<and>
    find (where_clause (from_id m) (trim c) (if isValidCIDR L (trim c) then '''' else trim c))
      (ip_addresses (db s)) = None")
  case False
  then have "db (st (add_handler L ge re s m c)) = db s"
    by (auto simp add: add_handler_def db_get_def addEntry_def reply_def Let_def
        split: option.splits)
  with assms show ?thesis by simp
next
  case True
  then have fresh: "\<forall>r \<in> set (ip_addresses (db s)). user_id r = from_id m \<longrightarrow>
      ip_address r \<noteq> Some (trim c)"
    by (auto dest: find_where_none)
  have rows: "ip_addresses (db (st (add_handler L ge re s m c))) =
      ip_addresses (db s) @
        [\<lparr>row_id = Suc (sequence (db s)), user_id = from_id m,
          ip_address = (if isValidCIDR L (trim c) then None else Some (trim c)),
          cidr = (if isValidCIDR L (trim c) then Some (trim c) else None)\<rparr>]"
    using True by (simp add: add_handler_def db_get_def addEntry_def reply_def Let_def)
  show ?thesis
    using assms fresh unfolding unique_bare_def rows by auto
qed

lemma distinct_map_filter_twice:
  "distinct (map f (filter Q xs)) \<Longrightarrow> distinct (map f (filter Q (filter P xs)))"
  by (induction xs) auto

lemma unique_bare_delete_handler:
  assumes "unique_bare (db s)"
  shows "unique_bare (db (st (delete_handler re s m c)))"
proof -
  have "\<exists>P. ip_addresses (db (st (delete_handler re s m c))) = filter P (ip_addresses (db s))"
  proof (cases re)
    case None
    then show ?thesis
      by (auto simp add: delete_handler_def db_delete_def reply_def Let_def)
  next
    case (Some e)
    then have "ip_addresses (db (st (delete_handler re s m c))) =
        filter (\<lambda>_. True) (ip_addresses (db s))"
      by (simp add: delete_handler_def reply_def Let_def)
    then show ?thesis by blast
  qed
  then obtain P where P:
    "ip_addresses (db (st (delete_handler re s m c))) = filter P (ip_addresses (db s))"
    by blast
  show ?thesis
    using assms unfolding unique_bare_def P by (rule distinct_map_filter_twice)
qed

lemma callback_keeps_db:
  "cq_data cq \<noteq> ''confirm_batch_add'' \<Longrightarrow>
   db (st (callback_query L ae errs rank s cq)) = db s"
  by (simp add: callback_query_def reply_def Let_def db_listIpAddresses split: option.splits)

lemma unique_bare_on_text:
  "unique_bare (db s) \<Longrightarrow> unique_bare (db (st (on_text L E s m t)))"
  unfolding on_text_def
  by (intro and_then_keeps [where P = "\<lambda>s. unique_bare (db s)"])
     (auto simp add: unique_bare_add_handler unique_bare_delete_handler db_list_handler
        db_check_handler db_batchadd_handler db_start_help_handler reply_def
        split: option.splits)

lemma unique_bare_process_update:
  assumes "unique_bare (db s)" and "\<not> is_confirm u"
  shows "unique_bare (db (st (process_update L E s u)))"
proof (cases u)
  case (Message m)
  then show ?thesis
    using assms(1) unfolding process_update_def
    by (auto intro!: and_then_keeps [where P = "\<lambda>s. unique_bare (db s)"]
        simp add: db_message_handler unique_bare_on_text reply_def split: option.splits)
next
  case (CallbackQuery cq)
  then show ?thesis
    using assms by (simp add: process_update_def callback_keeps_db is_confirm_def)
next
  case (PromptSent chat mid)
  then show ?thesis
    using assms(1) by (simp add: process_update_def db_prompt_sent)
qed

lemma bare_addresses_unique_without_batch:
  assumes "unique_bare (db s)" and "\<forall>(E, u) \<in> set us. \<not> is_confirm u"
  shows "unique_bare (db (run L s us))"
  using assms
proof (induction us arbitrary: s)
  case Nil
  then show ?case by simp
next
  case (Cons eu us)
  obtain E u where eu: "eu = (E, u)" by (cases eu)
  have "unique_bare (db (st (process_update L E s u)))"
    using Cons.prems eu by (intro unique_bare_process_update) auto
  then show ?case
    using Cons.IH Cons.prems(2) eu by simp
qed

subsection \<open>Numbers held exactly\<close>


section \<open>Claims\<close>

text \<open>
  Claim C1 (adding the same value twice stores one record and answers "already added").
  For a value the library classifies as a CIDR block the handler does otherwise: the
  existence query compares the value with \<^verbatim>\<open>ip_address\<close> and the empty text with
  \<^verbatim>\<open>cidr\<close>, the first add stores the value under \<^verbatim>\<open>cidr\<close>, so the second add finds
  nothing. Starting from the empty store, two adds of the same non-empty CIDR value
  leave two records of the owner with that value, and the second answer is
  "CIDR ... added successfully." (For a bare address the second add does answer
  "already added" and stores nothing: \<open>add_twice_bare_address_once\<close>.)
\<close>

theorem add_twice_cidr_stores_two:
  assumes "isValidCIDR L (trim c)" and "trim c \<noteq> []"
  shows "add_handler L None None (st (add_handler L None None initial_state m c)) m c =
           \<lparr>st = initial_state\<lparr>db := \<lparr>ip_addresses =
                    [\<lparr>row_id = 1, user_id = from_id m, ip_address = None, cidr = Some (trim c)\<rparr>,
                     \<lparr>row_id = 2, user_id = from_id m, ip_address = None, cidr = Some (trim c)\<rparr>],
                    sequence = 2\<rparr>\<rparr>,
            sent = [SendMessage (chat_id m) (''CIDR '' @ trim c @ '' added successfully.'') []],
            thrown = None\<rparr>"
  using assms
  by (simp add: add_handler_def db_get_def addEntry_def where_clause_def reply_def
      initial_state_def empty_database_def Let_def)

theorem add_twice_cidr_stores_two_witness:
  "ip_addresses (db (run example_lib initial_state
      [text_from 7 1 ''/add 10.0.0.0/8'', text_from 7 1 ''/add 10.0.0.0/8''])) =
     [\<lparr>row_id = 1, user_id = 1, ip_address = None, cidr = Some ''10.0.0.0/8''\<rparr>,
      \<lparr>row_id = 2, user_id = 1, ip_address = None, cidr = Some ''10.0.0.0/8''\<rparr>]"
  using add_twice_cidr_stores_two [of example_lib "''10.0.0.0/8''"
      "\<lparr>chat_id = 7, from_id = 1, msg_text = Some ''/add 10.0.0.0/8''\<rparr>"]
  by (simp add: bot_defs Let_def)

text \<open>
  Claim C2 (after every sequence of single adds, batch confirmations and deletes no
  owner holds the same stored value twice). The batch confirmation inserts every
  candidate through \<^verbatim>\<open>addEntry\<close> with no existence query: after user 1 starts a batch,
  sends the address 10.0.0.1 on two lines and confirms, the store holds two records of
  user 1 with that value, whatever the library answers. (As long as no batch is
  confirmed, no owner holds a bare address twice: \<open>bare_addresses_unique_without_batch\<close>.)
\<close>

theorem batch_confirm_stores_duplicates:
  "\<not> unique_per_owner (ip_addresses (db (run L initial_state
      [text_from 7 1 ''/batchadd'', text_from 7 1 (''10.0.0.1'' @ line_feed @ ''10.0.0.1''),
       (no_faults, CallbackQuery (press 7 1 ''confirm_batch_add''))])))"
  by (cases "isValidCIDR L ''10.0.0.1''") (simp_all add: bot_defs unique_per_owner_def Let_def)

text \<open>
  Claim C3 (an add whose trimmed value is empty is invalid and stores nothing). The
  handler trims the capture and then classifies and stores it with no test for the
  empty text: on the message \<^verbatim>\<open>/add\<close>, two blanks, a line feed and a second line, the
  capture is one blank, its trimmed value is empty, and the store afterwards holds one
  record of the sender whose value is the empty text.
\<close>

theorem add_blank_argument_stores_empty_value:
  "ip_addresses (db (st (process_update L no_faults initial_state
      (Message \<lparr>chat_id = c, from_id = u,
                msg_text = Some (''/add  '' @ line_feed @ ''10.0.0.1'')\<rparr>)))) =
   [\<lparr>row_id = 1, user_id = u,
     ip_address = (if isValidCIDR L '''' then None else Some ''''),
     cidr = (if isValidCIDR L '''' then Some '''' else None)\<rparr>]"
  by (simp add: bot_defs Let_def)

text \<open>
  Claim C4 (a cancel callback in a conversation with no pending batch is a no-op and
  does not fail). The cancel branch sends "Batch add cancelled." and then reads
  \<^verbatim>\<open>batchAddData[chatId].messageId\<close> of the absent entry: in every state with no pending
  batch for the chat the handler has sent the message and throws a \<^verbatim>\<open>TypeError\<close>.
\<close>

theorem cancel_without_pending_batch_throws:
  "callback_query L ae errs rank (s\<lparr>batchAddData := (batchAddData s)(chat := None)\<rparr>)
     \<lparr>cq_id = i, cq_chat_id = chat, cq_from_id = u, cq_data = ''cancel_batch_add''\<rparr> =
   \<lparr>st = s\<lparr>batchAddData := (batchAddData s)(chat := None)\<rparr>,
    sent = [SendMessage chat ''Batch add cancelled.'' []],
    thrown = Some TypeError\<rparr>"
  by (simp add: callback_query_def startsWith_def)

text \<open>
  Claim C5. When the initiator confirms a pending batch of \<open>N\<close> candidates, every
  candidate is inserted on its own: whatever statements the storage engine fails and in
  whatever order it runs them, the handler does not throw, the records of the store
  before are kept, the records appended are as many as the statements that succeeded,
  each candidate whose statement succeeded is among them (for the confirming user, in
  the column its classification selects), the one summary message reports that number
  as successes and the rest of \<open>N\<close> as errors (the two add up to \<open>N\<close>), and the pending
  batch is cleared.
\<close>

theorem confirm_batch_partial_failure:
  assumes pending: "batchAddData s (cq_chat_id cq) = Some b"
    and initiator: "userId b = cq_from_id cq"
    and token: "cq_data cq = ''confirm_batch_add''"
  shows "\<exists>new.
     thrown (callback_query L ae errs rank s cq) = None \<and>
     sent (callback_query L ae errs rank s cq) =
       SendMessage (cq_chat_id cq)
         (''Batch add completed. '' @ show_nat (length new) @ '' addresses added successfully, '' @
          show_nat (length (addresses b) - length new) @ '' errors.'') []
       # retract_prompt (cq_chat_id cq) b \<and>
     length new = length (filter (\<lambda>k. errs k = None) [0..<length (addresses b)]) \<and>
     length new + (length (addresses b) - length new) = length (addresses b) \<and>
     ip_addresses (db (st (callback_query L ae errs rank s cq))) = ip_addresses (db s) @ new \<and>
     (\<forall>k<length (addresses b). errs k = None \<longrightarrow>
        (\<exists>r \<in> set new. stored_as L (cq_from_id cq) (addresses b ! k) r)) \<and>
     batchAddData (st (callback_query L ae errs rank s cq)) (cq_chat_id cq) = None"
proof -
  let ?N = "length (addresses b)"
  let ?ord = "completion_order rank (addresses b)"
  let ?res = "addPromises L errs (cq_from_id cq) ?ord (db s, 0, 0)"
  obtain d sc ec where res: "?res = (d, sc, ec)"
    by (cases ?res) auto
  obtain new where new:
    "ip_addresses (fst ?res) = ip_addresses (db s) @ new"
    "length new = length (filter (\<lambda>p. errs (fst p) = None) ?ord)"
    "\<forall>p \<in> set ?ord. errs (fst p) = None \<longrightarrow>
       (\<exists>r \<in> set new. stored_as L (cq_from_id cq) (snd p) r)"
    using addPromises_rows [of L errs "cq_from_id cq" ?ord "db s" 0 0] by blast
  have count: "length new = length (filter (\<lambda>k. errs k = None) [0..<?N])"
    using new(2) count_completion_order [of "\<lambda>k. errs k = None" rank "addresses b"] by simp
  have each: "\<exists>r \<in> set new. stored_as L (cq_from_id cq) (addresses b ! k) r"
    if "k < ?N" "errs k = None" for k
    using new(3) candidate_in_completion_order [OF that(1), of rank] that(2) by fastforce
  have sc: "sc = length new"
    using addPromises_successCount [of L errs "cq_from_id cq" ?ord "db s" 0 0] new(2) res
    by simp
  have "snd (snd ?res) = 0 + (length ?ord - length (filter (\<lambda>p. errs (fst p) = None) ?ord))"
    by (simp only: addPromises_errorCount error_count)
  then have ec: "ec = ?N - length new"
    using new(2) res by (simp add: length_completion_order)
  have le: "length new \<le> ?N"
    using count length_filter_le [of "\<lambda>k. errs k = None" "[0..<?N]"] by simp
  have d: "ip_addresses d = ip_addresses (db s) @ new"
    using new(1) res by simp
  have out: "callback_query L ae errs rank s cq =
      reply (s\<lparr>db := d, batchAddData := (batchAddData s)(cq_chat_id cq := None)\<rparr>)
        (SendMessage (cq_chat_id cq)
           (''Batch add completed. '' @ show_nat sc @ '' addresses added successfully, '' @
            show_nat ec @ '' errors.'') []
         # retract_prompt (cq_chat_id cq) b)"
    using pending initiator token res
    by (simp add: callback_query_def startsWith_def Let_def)
  show ?thesis
    using out sc ec le d count each by (intro exI [of _ new]) (simp add: reply_def)
qed

theorem confirm_batch_partial_failure_witness:
  "userId (the (batchAddData five_pending 7)) = 1 \<and>
   sent (callback_query example_lib None two_failures (\<lambda>_. 0) five_pending
           (press 7 1 ''confirm_batch_add'')) =
     [SendMessage 7 ''Batch add completed. 3 addresses added successfully, 2 errors.'' [],
      DeleteMessage 7 ''1''] \<and>
   ip_addresses (db (st (callback_query example_lib None two_failures (\<lambda>_. 0) five_pending
        (press 7 1 ''confirm_batch_add'')))) =
     [\<lparr>row_id = 1, user_id = 1, ip_address = Some ''10.0.0.1'', cidr = None\<rparr>,
      \<lparr>row_id = 2, user_id = 1, ip_address = None, cidr = Some ''10.1.0.0/16''\<rparr>,
      \<lparr>row_id = 3, user_id = 1, ip_address = Some ''10.0.0.5'', cidr = None\<rparr>]"
  using confirm_batch_partial_failure [of five_pending "press 7 1 ''confirm_batch_add''"
      "\<lparr>userId = 1,
        addresses = [''10.0.0.1'', ''10.0.0.2'', ''10.1.0.0/16'', ''10.0.0.4'', ''10.0.0.5''],
        messageId = Some 1\<rparr>" example_lib None two_failures "\<lambda>_. 0"]
  by (simp add: five_pending_eq two_failures_def bot_defs Let_def)

text \<open>
  Claim C6. While a batch is pending in a conversation, a \<^verbatim>\<open>confirm_batch_add\<close> callback
  from a user other than the one who started the batch changes nothing (neither the
  pending batch nor the store nor any other state) and sends nothing.
\<close>

theorem confirm_by_other_user_ignored:
  assumes "batchAddData s (cq_chat_id cq) = Some b"
    and "userId b \<noteq> cq_from_id cq"
    and "cq_data cq = ''confirm_batch_add''"
  shows "callback_query L ae errs rank s cq = \<lparr>st = s, sent = [], thrown = None\<rparr>"
  using assms by (simp add: callback_query_def startsWith_def reply_def)

theorem confirm_by_other_user_ignored_witness:
  "userId (the (batchAddData pending_example 7)) = 1 \<and>
   callback_query example_lib None (\<lambda>_. None) (\<lambda>_. 0) pending_example
     (press 7 2 ''confirm_batch_add'') =
     \<lparr>st = pending_example, sent = [], thrown = None\<rparr>"
  using confirm_by_other_user_ignored [of pending_example "press 7 2 ''confirm_batch_add''"
      "\<lparr>userId = 1, addresses = [''10.0.0.1'', ''10.0.0.0/8''], messageId = Some 1\<rparr>"
      example_lib None "\<lambda>_. None" "\<lambda>_. 0"]
  by (simp add: pending_example_eq press_def)




text \<open>
  Claim C8. In every state the bot can reach from the empty store, a \<^verbatim>\<open>/check\<close> whose
  trimmed input is not a valid CIDR answers with one message: "not within any stored
  CIDR" when no record matches (its \<^verbatim>\<open>ip_address\<close> equals the input, or its \<^verbatim>\<open>cidr\<close> is a
  valid CIDR that contains the input); otherwise it names the \<^verbatim>\<open>cidr\<close> and the owner
  (the text of its \<^verbatim>\<open>user_id\<close> column) of the matching record with the lowest identifier,
  and of no other.
\<close>

theorem check_bare_address_reports_first_match:
  assumes bare: "\<not> isValidCIDR L (trim c)"
  shows
    "((\<forall>r \<in> set (ip_addresses (db (run L initial_state us))). \<not> row_matches L (trim c) r) \<longrightarrow>
        check_handler L None (run L initial_state us) m c =
          reply (run L initial_state us)
            [SendMessage (chat_id m) (trim c @ '' is not within any stored CIDR.'') []]) \<and>
     (\<forall>r \<in> set (ip_addresses (db (run L initial_state us))).
        row_matches L (trim c) r \<and>
        (\<forall>r' \<in> set (ip_addresses (db (run L initial_state us))).
           row_matches L (trim c) r' \<longrightarrow> row_id r \<le> row_id r') \<longrightarrow>
        check_handler L None (run L initial_state us) m c =
          reply (run L initial_state us)
            [SendMessage (chat_id m)
               (trim c @ '' is within CIDR '' @ show_nullable (cidr r) @ '' from user '' @
                column_text L (user_id r)) []])"
proof -
  let ?s = "run L initial_state us"
  let ?rows = "ip_addresses (db ?s)"
  have sorted: "sorted_wrt (\<lambda>a b. row_id a < row_id b) ?rows"
    using ids_reachable [of L us] by (simp add: ids_ascending_def)
  have out: "check_handler L None ?s m c =
      reply ?s
        (case find (row_matches L (trim c)) ?rows of
           None \<Rightarrow> [SendMessage (chat_id m) (trim c @ '' is not within any stored CIDR.'') []]
         | Some r \<Rightarrow>
             [SendMessage (chat_id m)
                (trim c @ '' is within CIDR '' @ show_nullable (cidr r) @ '' from user '' @
                 column_text L (user_id r)) []])"
    using bare by (simp add: check_handler_def Let_def check_ip_loop_find split: option.splits)
  show ?thesis
  proof (intro conjI impI ballI)
    assume "\<forall>r \<in> set ?rows. \<not> row_matches L (trim c) r"
    then have "find (row_matches L (trim c)) ?rows = None"
      by (rule find_none)
    with out show "check_handler L None ?s m c =
        reply ?s [SendMessage (chat_id m) (trim c @ '' is not within any stored CIDR.'') []]"
      by simp
  next
    fix r
    assume r: "r \<in> set ?rows"
      and least: "row_matches L (trim c) r \<and>
        (\<forall>r' \<in> set ?rows. row_matches L (trim c) r' \<longrightarrow> row_id r \<le> row_id r')"
    have "find (row_matches L (trim c)) ?rows = Some r"
      using sorted r least by (intro find_lowest_id) auto
    with out show "check_handler L None ?s m c =
        reply ?s
          [SendMessage (chat_id m)
             (trim c @ '' is within CIDR '' @ show_nullable (cidr r) @ '' from user '' @
              column_text L (user_id r)) []]"
      by simp
  qed
qed

theorem check_bare_address_reports_first_match_witness:
  "check_handler example_lib None (run example_lib initial_state two_blocks)
     \<lparr>chat_id = 7, from_id = 3, msg_text = Some ''/check 10.1.2.3''\<rparr> ''10.1.2.3'' =
   reply (run example_lib initial_state two_blocks)
     [SendMessage 7 ''10.1.2.3 is within CIDR 10.0.0.0/8 from user 5000000000.0'' []]"
proof -
  let ?m = "\<lparr>chat_id = 7, from_id = 3, msg_text = Some ''/check 10.1.2.3''\<rparr>"
  let ?r1 = "\<lparr>row_id = 1, user_id = 5000000000, ip_address = None,
              cidr = Some ''10.0.0.0/8''\<rparr>"
  let ?r2 = "\<lparr>row_id = 2, user_id = 2, ip_address = None, cidr = Some ''10.1.0.0/16''\<rparr>"
  have trimmed: "trim ''10.1.2.3'' = ''10.1.2.3''"
    by (simp add: trim_def is_white_space_def)
  have bare: "\<not> isValidCIDR example_lib (trim ''10.1.2.3'')"
    by (simp add: trimmed example_lib_def)
  have rows: "ip_addresses (db (run example_lib initial_state two_blocks)) = [?r1, ?r2]"
    by (simp add: two_blocks_eq)
  have m1: "row_matches example_lib ''10.1.2.3'' ?r1"
    by (simp add: row_matches_def example_lib_def)
  have least: "\<forall>r' \<in> set [?r1, ?r2].
      row_matches example_lib ''10.1.2.3'' r' \<longrightarrow> row_id ?r1 \<le> row_id r'"
    by simp
  have mem: "?r1 \<in> set [?r1, ?r2]"
    by simp
  note t = check_bare_address_reports_first_match
    [OF bare, of two_blocks ?m, unfolded rows trimmed]
  note t2 = bspec [OF conjunct2 [OF t] mem]
  have "check_handler example_lib None (run example_lib initial_state two_blocks) ?m ''10.1.2.3'' =
          reply (run example_lib initial_state two_blocks)
            [SendMessage (chat_id ?m)
               (''10.1.2.3'' @ '' is within CIDR '' @ show_nullable (cidr ?r1) @
                '' from user '' @ column_text example_lib (user_id ?r1)) []]"
    using m1 least by (rule mp [OF t2, OF conjI])
  then show ?thesis
    by (simp add: example_lib_def show_nullable_def show_int_def digit_char_def)
qed



text \<open>
  Claim C10. While a batch is pending in a conversation, a \<^verbatim>\<open>cancel_batch_add\<close> callback
  clears it and sends "Batch add cancelled." (and retracts the prompt) whoever presses the
  button: the handler's outcome is the same for every acting user, the initiator or not.
\<close>

theorem cancel_by_any_user:
  assumes "batchAddData s (cq_chat_id cq) = Some b"
    and "cq_data cq = ''cancel_batch_add''"
  shows "callback_query L ae errs rank s cq =
           \<lparr>st = s\<lparr>batchAddData := (batchAddData s)(cq_chat_id cq := None)\<rparr>,
            sent = SendMessage (cq_chat_id cq) ''Batch add cancelled.'' []
                   # retract_prompt (cq_chat_id cq) b,
            thrown = None\<rparr> \<and>
         (\<forall>u. callback_query L ae errs rank s (cq\<lparr>cq_from_id := u\<rparr>) =
               callback_query L ae errs rank s cq)"
  using assms by (simp add: callback_query_def startsWith_def reply_def Let_def)

theorem cancel_by_any_user_witness:
  "userId (the (batchAddData pending_example 7)) = 1 \<and>
   callback_query example_lib None (\<lambda>_. None) (\<lambda>_. 0) pending_example
     (press 7 2 ''cancel_batch_add'') =
     \<lparr>st = pending_example\<lparr>batchAddData := (\<lambda>_. None)\<rparr>,
      sent = [SendMessage 7 ''Batch add cancelled.'' [], DeleteMessage 7 ''1''],
      thrown = None\<rparr>"
  using cancel_by_any_user [of pending_example "press 7 2 ''cancel_batch_add''"
      "\<lparr>userId = 1, addresses = [''10.0.0.1'', ''10.0.0.0/8''], messageId = Some 1\<rparr>"
      example_lib None "\<lambda>_. None" "\<lambda>_. 0"]
  by (simp add: pending_example_eq press_def retract_prompt_def show_int_def digit_char_def
      fun_upd_idem)

end
